theory Spec2Isabelle
  imports Complex_Main
begin

section \<open>Python values\<close>

text \<open>
  A Python \<open>str\<close> is a sequence of Unicode code points, so it is modelled as a list of
  naturals; two strings are equal exactly when their UTF-8 encodings are byte-identical.
  Literals of the source are written with \<open>lit\<close> over their ASCII text, with the code
  points outside ASCII (the emoji of the prompt template) given by number.
\<close>

type_synonym pystr = "nat list"

definition lit :: "string \<Rightarrow> pystr" where
  "lit s = map of_char s"

text \<open>
  \<open>str.isspace\<close> for one code point: the characters CPython classifies as whitespace
  (U+0009..U+000D, U+001C..U+0020, U+0085, U+00A0, U+1680, U+2000..U+200A, U+2028,
  U+2029, U+202F, U+205F, U+3000).
\<close>

definition py_isspace :: "nat \<Rightarrow> bool" where
  "py_isspace c \<longleftrightarrow>
     (0x09 \<le> c \<and> c \<le> 0x0D) \<or> (0x1C \<le> c \<and> c \<le> 0x20) \<or> c = 0x85 \<or> c = 0xA0 \<or>
     c = 0x1680 \<or> (0x2000 \<le> c \<and> c \<le> 0x200A) \<or> c = 0x2028 \<or> c = 0x2029 \<or>
     c = 0x202F \<or> c = 0x205F \<or> c = 0x3000"

text \<open>\<open>s.strip()\<close>: leading and trailing whitespace removed.\<close>

definition strip :: "pystr \<Rightarrow> pystr" where
  "strip s = rev (dropWhile py_isspace (rev (dropWhile py_isspace s)))"

text \<open>\<open>sep.join(xs)\<close> for a list of strings.\<close>

fun join :: "pystr \<Rightarrow> pystr list \<Rightarrow> pystr" where
  "join sep [] = []"
| "join sep [x] = x"
| "join sep (x # y # ys) = x @ sep @ join sep (y # ys)"

text \<open>\<open>str(n)\<close> for an integer, as an f-string renders it: decimal digits, with a
  leading minus sign for a negative number.\<close>

fun str_nat :: "nat \<Rightarrow> pystr" where
  "str_nat n = (if n < 10 then [48 + n] else str_nat (n div 10) @ [48 + n mod 10])"

definition str_int :: "int \<Rightarrow> pystr" where
  "str_int i = (if i < 0 then 45 # str_nat (nat (- i)) else str_nat (nat i))"

text \<open>
  Truthiness of an optional string (\<open>None\<close> and \<open>""\<close> are falsy), and the two uses of
  \<open>or\<close> in the source: \<open>api_key or os.getenv(...)\<close> on optional strings and
  \<open>languages or 'Not detected'\<close> on strings.
\<close>

definition truthy :: "pystr option \<Rightarrow> bool" where
  "truthy v = (case v of None \<Rightarrow> False | Some s \<Rightarrow> s \<noteq> [])"

definition py_or :: "pystr option \<Rightarrow> pystr option \<Rightarrow> pystr option" where
  "py_or a b = (if truthy a then a else b)"

definition str_or :: "pystr \<Rightarrow> pystr \<Rightarrow> pystr" where
  "str_or a b = (if a \<noteq> [] then a else b)"

text \<open>
  A raised exception: its class, \<open>str(e)\<close> and its \<open>__context__\<close>, the exception that
  was being handled when it was raised (\<open>None\<close> when there was none). \<open>ProviderError\<close>
  stands for the classes the SDK raises on its own (network, authentication, quota),
  named by the class name.
\<close>

datatype exc_class = Exception | ValueError | ProviderError string

datatype py_exc = PyExc exc_class pystr "py_exc option"

fun exc_str :: "py_exc \<Rightarrow> pystr" where
  "exc_str (PyExc c msg ctx) = msg"

section \<open>The request payload\<close>

text \<open>
  The values of the optional \<open>dependencies\<close> and \<open>scripts\<close> dictionaries are JSON
  values (without floating-point numbers, which no function below reads).
\<close>

datatype json = JNull | JBool bool | JInt int | JStr pystr | JList "json list"
  | JDict "(pystr \<times> json) list"

text \<open>
  The analysis dictionary handed to the agent, with the field types of
  \<open>ProjectAnalysis\<close> in \<open>app.py\<close>. A field is \<open>None\<close> when the key is missing from
  the dictionary (for the four optional fields also when its value is \<open>None\<close>), which
  is what \<open>analysis.get(key, default)\<close> distinguishes.
\<close>

record analysis =
  name :: "pystr option"
  "structure" :: "pystr list option"
  languages :: "pystr list option"
  frameworks :: "pystr list option"
  fileCount :: "int option"
  estimatedLOC :: "int option"
  apiKey :: "pystr option"
  description :: "pystr option"
  dependencies :: "(pystr \<times> json) list option"
  scripts :: "(pystr \<times> json) list option"

text \<open>\<open>d.get(key, default)\<close> on such a field.\<close>

definition get :: "'a option \<Rightarrow> 'a \<Rightarrow> 'a" where
  "get field dflt = (case field of None \<Rightarrow> dflt | Some v \<Rightarrow> v)"

section \<open>The prompt builder (\<open>DocGenAgent._build_prompt\<close>)\<close>

text \<open>The fixed text of the template after the structure preview, line by line.\<close>

definition prompt_requirements :: pystr where
  "prompt_requirements = join (lit ''\<newline>'')
    [
     lit ''REQUIREMENTS FOR THE README:'',
     lit '''',
     lit ''1. **Title & Description**'',
     lit ''   - Use an engaging emoji that fits the project type'',
     lit ''   - Write a clear, compelling 2-3 sentence description'',
     lit ''   - Explain WHAT the project does and WHY it exists'',
     lit '''',
     lit ''2. **Features Section** ('' @ [0x2728] @ lit '' Features)'',
     lit ''   - List 4-6 key features based on the project structure'',
     lit ''   - Be specific (e.g., \"User authentication with JWT\" not just \"Authentication\")'',
     lit ''   - Use bullet points with descriptive icons/emojis'',
     lit '''',
     lit ''3. **Tech Stack Section** ('' @ [0x1F6E0, 0xFE0F] @ lit '' Tech Stack)'',
     lit ''   - Organize by category: Frontend, Backend, Database, Tools'',
     lit ''   - Only include technologies you can confirm from the structure'',
     lit ''   - Be specific about versions if visible in package files'',
     lit '''',
     lit ''4. **Architecture & Design** ('' @ [0x1F3D7, 0xFE0F] @ lit '' Architecture)'',
     lit ''   - Describe the high-level architecture (e.g., Client-Server, MVC)'',
     lit ''   - If frontend/backend exists, explain their relationship'',
     lit ''   - Mention key design patterns observed (e.g., Component-based, Service-layer)'',
     lit '''',
     lit ''5. **Getting Started** ('' @ [0x1F680] @ lit '' Getting Started)'',
     lit ''   - Include Prerequisites section'',
     lit ''   - Provide clear Installation steps'',
     lit ''   - Add Running the Application steps'',
     lit ''   - If it's a full-stack app, show both frontend and backend setup'',
     lit '''',
     lit ''6. **Project Structure** ('' @ [0x1F4C1] @ lit '' Project Structure)'',
     lit ''   - Show a clean tree view of main directories'',
     lit ''   - Add brief comments explaining key folders'',
     lit ''   - Keep it concise (top-level only)'',
     lit '''',
     lit ''7. **API Documentation** ('' @ [0x1F4DA] @ lit '' API Documentation) - ONLY if backend detected'',
     lit ''   - Mention that API docs are available'',
     lit ''   - Suggest where to find endpoint details'',
     lit '''',
     lit ''8. **Environment Variables** - ONLY if .env files detected'',
     lit ''   - List required environment variables'',
     lit ''   - Provide example values (not real secrets)'',
     lit '''',
     lit ''9. **Contributing** ('' @ [0x1F91D] @ lit '' Contributing)'',
     lit ''   - Brief, welcoming contribution guidelines'',
     lit '''',
     lit ''10. **License** ('' @ [0x1F4C4] @ lit '' License)'',
     lit ''   - Mention license if detected, otherwise use MIT'',
     lit '''',
     lit ''STYLE GUIDELINES:'',
     lit ''- Use emojis strategically (one per section header)'',
     lit ''- Use code blocks with proper language tags'',
     lit ''- Use tables for structured data when appropriate'',
     lit ''- Keep paragraphs short and scannable'',
     lit ''- Use **bold** for emphasis'',
     lit ''- Use `code` for technical terms'',
     lit '''',
     lit ''CRITICAL RULES:'',
     lit ''- DO NOT invent features that aren't evident from the structure'',
     lit ''- DO NOT add placeholder text like \"Add your description here\"'',
     lit ''- DO NOT include badges (they'll be added separately)'',
     lit ''- DO NOT make assumptions about deployment or testing unless files indicate it'',
     lit ''- DO write in present tense'',
     lit ''- DO be specific and actionable'',
     lit '''',
     lit ''OUTPUT FORMAT:'',
     lit ''Generate ONLY the markdown content. Do not wrap in ```markdown blocks.'',
     lit ''Start directly with the # title.'',
     lit '''',
     lit ''IMPORTANT: You MUST generate the COMPLETE README covering ALL sections from 1 to 10. Do not stop early. Ensure the response is complete.'',
     lit '''',
     lit ''Generate the README now:''
    ]"

text \<open>The fixed text of the template before the first placeholder's line.\<close>

definition prompt_preamble :: pystr where
  "prompt_preamble =
     lit ''You are a senior technical writer and developer advocate. Generate a comprehensive, professional README.md file that follows GitHub best practices.''
     @ lit ''\<newline>\<newline>PROJECT ANALYSIS:''"

text \<open>
  \<open>_build_prompt\<close>: the three joined strings, then the f-string, whose placeholders are
  the name, the two joined lists (or the marker when the joined string is empty), the
  two counts and the structure preview.
\<close>

definition build_prompt :: "analysis \<Rightarrow> pystr" where
  "build_prompt a =
    (let structure_preview = join (lit ''\<newline>'') (take 40 (get (structure a) []));
         languages_joined = join (lit '', '') (get (languages a) []);
         frameworks_joined = join (lit '', '') (get (frameworks a) [])
     in prompt_preamble
        @ lit ''\<newline>- Name: '' @ get (name a) (lit ''Unknown'')
        @ lit ''\<newline>- Primary Languages: '' @ str_or languages_joined (lit ''Not detected'')
        @ lit ''\<newline>- Frameworks/Tools: '' @ str_or frameworks_joined (lit ''Not detected'')
        @ lit ''\<newline>- Total Files: '' @ str_int (get (fileCount a) 0)
        @ lit ''\<newline>- Estimated Lines of Code: '' @ str_int (get (estimatedLOC a) 0)
        @ lit ''\<newline>\<newline>PROJECT STRUCTURE:\<newline>'' @ structure_preview
        @ lit ''\<newline>\<newline>'' @ prompt_requirements)"

section \<open>The generation client (\<open>gemini_client.py\<close>)\<close>

text \<open>
  The SDK (\<open>google.generativeai\<close>) is not part of the repository. Its state is the
  credential set by \<open>genai.configure\<close> together with the log of the SDK calls made so
  far, oldest first; \<open>ListModels\<close> and \<open>GenerateContent\<close> are the two calls that reach
  the network. The console output of the source (\<open>print\<close>) is left out.
\<close>

record generation_config =
  temperature :: real
  top_p :: real
  top_k :: nat
  max_output_tokens :: nat

datatype sdk_call =
    Configure pystr
  | ListModels
  | GenerativeModel pystr
  | GenerateContent pystr pystr generation_config

record genai =
  configured_key :: "pystr option"
  calls :: "sdk_call list"

text \<open>
  What the provider answers is a parameter of the model. A listed model has a name
  (\<open>m.name\<close>, here \<open>model_name\<close>) and the generation methods it advertises. A
  response is absent (\<open>None\<close>) or an object whose \<open>text\<close> attribute is \<open>None\<close>, a
  string, or raises when read.
\<close>

record model_info =
  model_name :: pystr
  supported_generation_methods :: "pystr list"

datatype response = Text "pystr option" | TextRaises py_exc

datatype remote_result = Raises py_exc | Returns "response option"

record provider =
  list_models :: "pystr option \<Rightarrow> py_exc + model_info list"
  model_generate_content ::
    "pystr option \<Rightarrow> pystr \<Rightarrow> pystr \<Rightarrow> generation_config \<Rightarrow> remote_result"

text \<open>The client object: \<open>self.model\<close>, the model the session is bound to, by name.\<close>

record gemini_client =
  model :: pystr

text \<open>
  \<open>GeminiClient.__init__\<close>. The \<open>except\<close> clause re-raises what it caught, so a failure
  of the listing and the \<open>ValueError\<close> of the empty selection both leave the
  constructor as they were raised.
\<close>

definition GeminiClient_init ::
  "provider \<Rightarrow> pystr \<Rightarrow> genai \<Rightarrow> (py_exc + gemini_client) \<times> genai" where
  "GeminiClient_init prov api_key s0 =
    (let s1 = s0\<lparr>configured_key := Some api_key, calls := calls s0 @ [Configure api_key]\<rparr>;
         s2 = s1\<lparr>calls := calls s1 @ [ListModels]\<rparr>
     in case list_models prov (configured_key s1) of
          Inl e \<Rightarrow> (Inl e, s2)
        | Inr available_models \<Rightarrow>
            (let content_models =
                   [m \<leftarrow> available_models.
                      lit ''generateContent'' \<in> set (supported_generation_methods m)]
             in case content_models of
                  [] \<Rightarrow>
                    (Inl (PyExc ValueError
                       (lit ''No models available that support generateContent'') None), s2)
                | selected_model # _ \<Rightarrow>
                    (Inr \<lparr>model = model_name selected_model\<rparr>,
                     s2\<lparr>calls := calls s2 @ [GenerativeModel (model_name selected_model)]\<rparr>)))"

text \<open>
  The body of the \<open>try\<close> block of \<open>generate_content\<close>, given what the remote call did:
  the emptiness check comes first, \<open>strip\<close> after it.
\<close>

definition check_response :: "remote_result \<Rightarrow> py_exc + pystr" where
  "check_response r =
    (case r of
       Raises e \<Rightarrow> Inl e
     | Returns None \<Rightarrow> Inl (PyExc ValueError (lit ''Empty response from Gemini'') None)
     | Returns (Some (TextRaises e)) \<Rightarrow> Inl e
     | Returns (Some (Text None)) \<Rightarrow> Inl (PyExc ValueError (lit ''Empty response from Gemini'') None)
     | Returns (Some (Text (Some t))) \<Rightarrow>
         (if t = [] then Inl (PyExc ValueError (lit ''Empty response from Gemini'') None)
          else Inr (strip t)))"

text \<open>
  \<open>GeminiClient.generate_content\<close>. The call made is
  \<open>self.model.generate_content(prompt, generation_config={...})\<close>; every exception of
  the \<open>try\<close> block, the \<open>ValueError\<close> of the emptiness check included, is caught and
  replaced by an \<open>Exception\<close> whose message is prefixed; raised inside the \<open>except\<close>
  clause, it has the exception caught as its context.
\<close>

definition generate_content ::
  "provider \<Rightarrow> gemini_client \<Rightarrow> pystr \<Rightarrow> int \<Rightarrow> genai \<Rightarrow> (py_exc + pystr) \<times> genai" where
  "generate_content prov self prompt timeout s =
    (let config = \<lparr>temperature = 0.3, top_p = 0.9, top_k = 40, max_output_tokens = 2048\<rparr>;
         s' = s\<lparr>calls := calls s @ [GenerateContent (model self) prompt config]\<rparr>;
         response = model_generate_content prov (configured_key s) (model self) prompt config
     in case check_response response of
          Inl e \<Rightarrow>
            (Inl (PyExc Exception (lit ''Gemini API error: '' @ exc_str e) (Some e)), s')
        | Inr t \<Rightarrow> (Inr t, s'))"

section \<open>The agent (\<open>DocGenAgent.generate\<close>)\<close>

text \<open>
  The process environment is a map from variable names to values; \<open>os.getenv\<close> is the
  lookup. The call \<open>gemini.generate_content(prompt)\<close> leaves the timeout at its
  default, 60.
\<close>

definition generate ::
  "(pystr \<rightharpoonup> pystr) \<Rightarrow> provider \<Rightarrow> analysis \<Rightarrow> pystr option \<Rightarrow> genai
     \<Rightarrow> (py_exc + pystr) \<times> genai" where
  "generate environ prov a api_key s =
    (let key_to_use = py_or api_key (environ (lit ''GEMINI_API_KEY''))
     in case key_to_use of
          None \<Rightarrow>
            (Inl (PyExc ValueError
               (lit ''GEMINI_API_KEY not provided.\<newline>Please configure it in the VS Code extension.'') None), s)
        | Some k \<Rightarrow>
            if k = [] then
              (Inl (PyExc ValueError
                 (lit ''GEMINI_API_KEY not provided.\<newline>Please configure it in the VS Code extension.'') None), s)
            else
              (case GeminiClient_init prov k s of
                 (Inl e, s1) \<Rightarrow> (Inl e, s1)
               | (Inr gemini, s1) \<Rightarrow>
                   (let prompt = build_prompt a
                    in generate_content prov gemini prompt 60 s1)))"

section \<open>Auxiliary notions and example inputs\<close>

text \<open>
  The answer of the provider to the one call that \<open>generate_content\<close> issues, and the
  SDK calls an invocation adds to the log.
\<close>

definition remote_reply :: "provider \<Rightarrow> gemini_client \<Rightarrow> pystr \<Rightarrow> genai \<Rightarrow> remote_result" where
  "remote_reply prov self prompt s =
     model_generate_content prov (configured_key s) (model self) prompt
       \<lparr>temperature = 0.3, top_p = 0.9, top_k = 40, max_output_tokens = 2048\<rparr>"

definition new_calls :: "genai \<Rightarrow> genai \<Rightarrow> sdk_call list" where
  "new_calls s s' = drop (length (calls s)) (calls s')"

definition supports_generate_content :: "model_info \<Rightarrow> bool" where
  "supports_generate_content m \<longleftrightarrow>
     lit ''generateContent'' \<in> set (supported_generation_methods m)"

text \<open>
  A provider that lists a fixed sequence of models and gives a fixed answer to every
  generation call, the SDK state before any call, and the analysis of the
  specification's end-to-end scenarios.
\<close>

definition fixed_provider :: "model_info list \<Rightarrow> remote_result \<Rightarrow> provider" where
  "fixed_provider ms r =
     \<lparr>list_models = (\<lambda>key. Inr ms), model_generate_content = (\<lambda>key m p c. r)\<rparr>"

definition demo_models :: "model_info list" where
  "demo_models =
     [\<lparr>model_name = lit ''models/embedding-001'',
       supported_generation_methods = [lit ''embedContent'']\<rparr>,
      \<lparr>model_name = lit ''models/gemini-pro'',
       supported_generation_methods = [lit ''generateContent'', lit ''countTokens'']\<rparr>,
      \<lparr>model_name = lit ''models/gemini-flash'',
       supported_generation_methods = [lit ''generateContent'']\<rparr>]"

definition embedding_only :: "model_info list" where
  "embedding_only =
     [\<lparr>model_name = lit ''models/embedding-001'',
       supported_generation_methods = [lit ''embedContent'']\<rparr>]"

definition fresh :: genai where
  "fresh = \<lparr>configured_key = None, calls = []\<rparr>"

definition demo_client :: gemini_client where
  "demo_client = \<lparr>model = lit ''models/gemini-pro''\<rparr>"

definition demo_analysis :: analysis where
  "demo_analysis =
     \<lparr>name = Some (lit ''demo''), structure = Some [lit ''a.py'', lit ''b.py''],
      languages = Some [lit ''Python''], frameworks = Some [],
      fileCount = Some 2, estimatedLOC = Some 50,
      apiKey = None, description = None, dependencies = None, scripts = None\<rparr>"


definition bare_analysis :: analysis where
  "bare_analysis =
     \<lparr>name = None, structure = None, languages = Some [], frameworks = None,
      fileCount = None, estimatedLOC = Some 12,
      apiKey = None, description = None, dependencies = None, scripts = None\<rparr>"

section \<open>Basic facts about strings\<close>

lemma lit_eq_iff [simp]: "lit a = lit b \<longleftrightarrow> a = b"
  by (simp add: lit_def inj_map_eq_map inj_of_char)

lemma lit_Nil_iff [simp]: "lit a = [] \<longleftrightarrow> a = []"
  by (simp add: lit_def)


lemma strip_whitespace_only: "list_all py_isspace t \<Longrightarrow> strip t = []"
proof -
  assume "list_all py_isspace t"
  then have d: "dropWhile py_isspace t = []"
    by (simp add: list_all_iff)
  show ?thesis
    by (simp only: strip_def d dropWhile.simps rev.simps)
qed

lemma strip_eq_Nil_iff: "strip t = [] \<longleftrightarrow> list_all py_isspace t"
proof
  assume "strip t = []"
  then have all: "\<forall>x\<in>set (dropWhile py_isspace t). py_isspace x"
    by (simp add: strip_def dropWhile_eq_Nil_conv)
  have "dropWhile py_isspace t = []"
  proof (rule ccontr)
    assume ne: "dropWhile py_isspace t \<noteq> []"
    then have "\<not> py_isspace (hd (dropWhile py_isspace t))"
      by (rule hd_dropWhile)
    moreover from ne have "hd (dropWhile py_isspace t) \<in> set (dropWhile py_isspace t)"
      by simp
    ultimately show False
      using all by blast
  qed
  then show "list_all py_isspace t"
    by (simp add: list_all_iff)
next
  assume "list_all py_isspace t"
  then show "strip t = []"
    by (rule strip_whitespace_only)
qed

lemma py_isspace_space: "py_isspace 32"
  by (simp add: py_isspace_def)

section \<open>The generation call\<close>

lemma generate_content_unfold:
  "generate_content prov self prompt timeout s =
     (case check_response (remote_reply prov self prompt s) of
        Inl e \<Rightarrow> Inl (PyExc Exception (lit ''Gemini API error: '' @ exc_str e) (Some e))
      | Inr t \<Rightarrow> Inr t,
      s\<lparr>calls := calls s @ [GenerateContent (model self) prompt
           \<lparr>temperature = 0.3, top_p = 0.9, top_k = 40, max_output_tokens = 2048\<rparr>]\<rparr>)"
  by (simp add: generate_content_def remote_reply_def Let_def split: sum.splits)

lemma generate_content_success_iff:
  "fst (generate_content prov self prompt timeout s) = Inr r \<longleftrightarrow>
     (\<exists>t. remote_reply prov self prompt s = Returns (Some (Text (Some t))) \<and> t \<noteq> [] \<and> r = strip t)"
  by (auto simp: generate_content_unfold check_response_def
      split: sum.splits remote_result.splits option.splits response.splits if_splits)

lemma generate_content_empty_success_iff:
  "fst (generate_content prov self prompt timeout s) = Inr [] \<longleftrightarrow>
     (\<exists>t. remote_reply prov self prompt s = Returns (Some (Text (Some t))) \<and> t \<noteq> []
        \<and> list_all py_isspace t)"
proof -
  have "([] = strip t) = list_all py_isspace t" for t
    using strip_eq_Nil_iff [of t] by auto
  then show ?thesis
    by (simp add: generate_content_success_iff)
qed

text \<open>
  Claim C1: the generation operation never returns a success whose result is an empty
  or whitespace-only string. The emptiness check of \<open>generate_content\<close> reads the text
  before it is stripped, so a text of three spaces passes the check and the call
  returns the empty string as a success.
\<close>

theorem whitespace_only_text_returned_as_empty_success:
  "fst (generate_content
          (fixed_provider demo_models (Returns (Some (Text (Some (lit ''   ''))))))
          demo_client prompt timeout s) = Inr []"
  by (simp add: generate_content_unfold remote_reply_def fixed_provider_def check_response_def
      strip_def py_isspace_def lit_def)



text \<open>
  Claim C9: the timeout of the generation call, 60 seconds by default, bounds the
  remote call. The parameter is accepted and never read: the result of
  \<open>generate_content\<close> and the call it issues are the same for every timeout.
\<close>

theorem timeout_argument_is_ignored:
  "generate_content prov self prompt timeout s = generate_content prov self prompt 60 s"
  by (simp add: generate_content_def)

section \<open>Construction of the client\<close>

lemma GeminiClient_init_unfold:
  "GeminiClient_init prov k s =
     (case list_models prov (Some k) of
        Inl e \<Rightarrow> (Inl e, s\<lparr>configured_key := Some k, calls := calls s @ [Configure k, ListModels]\<rparr>)
      | Inr available_models \<Rightarrow>
          (case filter supports_generate_content available_models of
             [] \<Rightarrow>
               (Inl (PyExc ValueError (lit ''No models available that support generateContent'') None),
                s\<lparr>configured_key := Some k, calls := calls s @ [Configure k, ListModels]\<rparr>)
           | m # _ \<Rightarrow>
               (Inr \<lparr>model = model_name m\<rparr>,
                s\<lparr>configured_key := Some k,
                  calls := calls s @ [Configure k, ListModels, GenerativeModel (model_name m)]\<rparr>)))"
proof -
  have "(\<lambda>m. lit ''generateContent'' \<in> set (supported_generation_methods m))
          = supports_generate_content"
    by (simp add: fun_eq_iff supports_generate_content_def)
  then show ?thesis
    by (simp add: GeminiClient_init_def Let_def split: sum.splits list.splits)
qed

lemma filter_first_match:
  "\<forall>x\<in>set before. \<not> P x \<Longrightarrow> P m \<Longrightarrow> filter P (before @ m # after) = m # filter P after"
  by simp

text \<open>
  Claim C5: construction of the client keeps exactly the listed models that advertise
  \<open>generateContent\<close>. When no listed model does, it fails with the \<open>ValueError\<close> of the
  empty selection after the one listing, with no further call; otherwise the session is
  bound to the first such model in the order of the listing, that is to the model
  \<open>m\<close> that no capable model precedes.
\<close>

theorem first_capable_model_is_selected:
  assumes "list_models prov (Some api_key) = Inr available_models"
  shows "((\<forall>m\<in>set available_models. \<not> supports_generate_content m) \<longrightarrow>
            GeminiClient_init prov api_key s =
              (Inl (PyExc ValueError (lit ''No models available that support generateContent'') None),
               s\<lparr>configured_key := Some api_key,
                 calls := calls s @ [Configure api_key, ListModels]\<rparr>))
       \<and> (\<forall>before m after.
            available_models = before @ m # after
              \<and> (\<forall>x\<in>set before. \<not> supports_generate_content x)
              \<and> supports_generate_content m \<longrightarrow>
            GeminiClient_init prov api_key s =
              (Inr \<lparr>model = model_name m\<rparr>,
               s\<lparr>configured_key := Some api_key,
                 calls := calls s @ [Configure api_key, ListModels, GenerativeModel (model_name m)]\<rparr>))"
proof (intro conjI allI impI)
  assume "\<forall>m\<in>set available_models. \<not> supports_generate_content m"
  then have "filter supports_generate_content available_models = []"
    by simp
  with assms show "GeminiClient_init prov api_key s =
      (Inl (PyExc ValueError (lit ''No models available that support generateContent'') None),
       s\<lparr>configured_key := Some api_key, calls := calls s @ [Configure api_key, ListModels]\<rparr>)"
    by (simp add: GeminiClient_init_unfold)
next
  fix before m after
  assume h: "available_models = before @ m # after
              \<and> (\<forall>x\<in>set before. \<not> supports_generate_content x)
              \<and> supports_generate_content m"
  then have "filter supports_generate_content available_models
               = m # filter supports_generate_content after"
    by (simp add: filter_first_match)
  with assms show "GeminiClient_init prov api_key s =
      (Inr \<lparr>model = model_name m\<rparr>,
       s\<lparr>configured_key := Some api_key,
         calls := calls s @ [Configure api_key, ListModels, GenerativeModel (model_name m)]\<rparr>)"
    by (simp add: GeminiClient_init_unfold)
qed

theorem first_capable_model_is_selected_witness:
  "GeminiClient_init (fixed_provider demo_models (Returns None)) (lit ''key-1'') fresh =
     (Inr \<lparr>model = lit ''models/gemini-pro''\<rparr>,
      \<lparr>configured_key = Some (lit ''key-1''),
       calls = [Configure (lit ''key-1''), ListModels, GenerativeModel (lit ''models/gemini-pro'')]\<rparr>)
   \<and> GeminiClient_init (fixed_provider embedding_only (Returns None)) (lit ''key-1'') fresh =
     (Inl (PyExc ValueError (lit ''No models available that support generateContent'') None),
      \<lparr>configured_key = Some (lit ''key-1''),
       calls = [Configure (lit ''key-1''), ListModels]\<rparr>)"
proof -
  have l1: "list_models (fixed_provider demo_models (Returns None)) (Some (lit ''key-1''))
              = Inr demo_models"
    by (simp add: fixed_provider_def)
  have l2: "list_models (fixed_provider embedding_only (Returns None)) (Some (lit ''key-1''))
              = Inr embedding_only"
    by (simp add: fixed_provider_def)
  have split: "demo_models = [demo_models ! 0] @ (demo_models ! 1) # [demo_models ! 2]"
    by (simp add: demo_models_def)
  have a: "GeminiClient_init (fixed_provider demo_models (Returns None)) (lit ''key-1'') fresh =
     (Inr \<lparr>model = lit ''models/gemini-pro''\<rparr>,
      \<lparr>configured_key = Some (lit ''key-1''),
       calls = [Configure (lit ''key-1''), ListModels, GenerativeModel (lit ''models/gemini-pro'')]\<rparr>)"
    using first_capable_model_is_selected [OF l1, of fresh, THEN conjunct2, rule_format,
        of "[demo_models ! 0]" "demo_models ! 1" "[demo_models ! 2]"] split
    by (simp add: demo_models_def supports_generate_content_def fresh_def)
  have b: "GeminiClient_init (fixed_provider embedding_only (Returns None)) (lit ''key-1'') fresh =
     (Inl (PyExc ValueError (lit ''No models available that support generateContent'') None),
      \<lparr>configured_key = Some (lit ''key-1''),
       calls = [Configure (lit ''key-1''), ListModels]\<rparr>)"
    using first_capable_model_is_selected [OF l2, of fresh, THEN conjunct1]
    by (simp add: embedding_only_def supports_generate_content_def fresh_def)
  from a b show ?thesis by simp
qed

section \<open>Credential resolution and the agent\<close>

text \<open>
  Claim C3: when neither the supplied key nor the environment variable holds a
  non-empty string, \<open>generate\<close> raises the \<open>ValueError\<close> of the missing credential and
  leaves the SDK state as it was: no \<open>Configure\<close>, no listing, no generation call.
\<close>

theorem missing_credential_fails_before_any_call:
  assumes "\<not> truthy api_key" and "\<not> truthy (environ (lit ''GEMINI_API_KEY''))"
  shows "generate environ prov a api_key s =
           (Inl (PyExc ValueError
              (lit ''GEMINI_API_KEY not provided.\<newline>Please configure it in the VS Code extension.'') None), s)"
  using assms
  by (auto simp: generate_def py_or_def truthy_def Let_def split: option.splits)

theorem missing_credential_fails_before_any_call_witness:
  "generate (Map.empty(lit ''GEMINI_API_KEY'' \<mapsto> [], lit ''HOME'' \<mapsto> lit ''/root''))
     (fixed_provider demo_models (Returns (Some (Text (Some (lit ''# demo''))))))
     demo_analysis None fresh =
   (Inl (PyExc ValueError
      (lit ''GEMINI_API_KEY not provided.\<newline>Please configure it in the VS Code extension.'') None), fresh)"
  using missing_credential_fails_before_any_call
    [of None "Map.empty(lit ''GEMINI_API_KEY'' \<mapsto> [], lit ''HOME'' \<mapsto> lit ''/root'')"
        "fixed_provider demo_models (Returns (Some (Text (Some (lit ''# demo'')))))"
        demo_analysis fresh]
  by (simp add: truthy_def)

lemma generate_with_key:
  "k \<noteq> [] \<Longrightarrow> py_or api_key (environ (lit ''GEMINI_API_KEY'')) = Some k \<Longrightarrow>
   generate environ prov a api_key s =
     (case GeminiClient_init prov k s of
        (Inl e, s1) \<Rightarrow> (Inl e, s1)
      | (Inr gemini, s1) \<Rightarrow> generate_content prov gemini (build_prompt a) 60 s1)"
  by (simp add: generate_def Let_def split: prod.splits sum.splits)

lemma run_with_key_state:
  "configured_key (snd (case GeminiClient_init prov k s of
        (Inl e, s1) \<Rightarrow> (Inl e, s1)
      | (Inr gemini, s1) \<Rightarrow> generate_content prov gemini (build_prompt a) 60 s1)) = Some k
   \<and> (\<exists>rest. new_calls s (snd (case GeminiClient_init prov k s of
        (Inl e, s1) \<Rightarrow> (Inl e, s1)
      | (Inr gemini, s1) \<Rightarrow> generate_content prov gemini (build_prompt a) 60 s1))
        = Configure k # ListModels # rest
       \<and> (\<forall>m p c. GenerateContent m p c \<in> set rest \<longrightarrow> p = build_prompt a))"
  by (auto simp: GeminiClient_init_unfold generate_content_unfold new_calls_def
      split: sum.splits list.splits)

text \<open>
  Claim C4: a supplied key that is present and non-empty is the one the client is
  constructed with, whatever the environment holds; when the supplied key is absent or
  empty and the environment variable holds a non-empty string, that string is used
  instead. In both cases \<open>generate\<close> is the construction of the client with the chosen
  key followed by the generation call, and \<open>Configure\<close> with that key is the first call
  it makes.
\<close>

theorem supplied_key_takes_precedence:
  "(k \<noteq> [] \<longrightarrow>
      generate environ prov a (Some k) s =
        (case GeminiClient_init prov k s of
           (Inl e, s1) \<Rightarrow> (Inl e, s1)
         | (Inr gemini, s1) \<Rightarrow> generate_content prov gemini (build_prompt a) 60 s1)
      \<and> configured_key (snd (generate environ prov a (Some k) s)) = Some k
      \<and> take 1 (new_calls s (snd (generate environ prov a (Some k) s))) = [Configure k])
   \<and> (\<not> truthy api_key \<and> environ (lit ''GEMINI_API_KEY'') = Some e \<and> e \<noteq> [] \<longrightarrow>
      generate environ prov a api_key s =
        (case GeminiClient_init prov e s of
           (Inl e, s1) \<Rightarrow> (Inl e, s1)
         | (Inr gemini, s1) \<Rightarrow> generate_content prov gemini (build_prompt a) 60 s1)
      \<and> configured_key (snd (generate environ prov a api_key s)) = Some e
      \<and> take 1 (new_calls s (snd (generate environ prov a api_key s))) = [Configure e])"
proof (intro conjI impI)
  assume k: "k \<noteq> []"
  then have "py_or (Some k) (environ (lit ''GEMINI_API_KEY'')) = Some k"
    by (simp add: py_or_def truthy_def)
  with k have g: "generate environ prov a (Some k) s =
        (case GeminiClient_init prov k s of
           (Inl e, s1) \<Rightarrow> (Inl e, s1)
         | (Inr gemini, s1) \<Rightarrow> generate_content prov gemini (build_prompt a) 60 s1)"
    by (rule generate_with_key)
  then show "generate environ prov a (Some k) s =
        (case GeminiClient_init prov k s of
           (Inl e, s1) \<Rightarrow> (Inl e, s1)
         | (Inr gemini, s1) \<Rightarrow> generate_content prov gemini (build_prompt a) 60 s1)" .
  from run_with_key_state [where prov = prov and k = k and s = s and a = a]
  show "configured_key (snd (generate environ prov a (Some k) s)) = Some k"
    by (simp only: g)
  from run_with_key_state [where prov = prov and k = k and s = s and a = a]
  show "take 1 (new_calls s (snd (generate environ prov a (Some k) s))) = [Configure k]"
    by (auto simp only: g take_Suc_Cons take_0 One_nat_def)
next
  assume h: "\<not> truthy api_key \<and> environ (lit ''GEMINI_API_KEY'') = Some e \<and> e \<noteq> []"
  then have "py_or api_key (environ (lit ''GEMINI_API_KEY'')) = Some e"
    by (simp add: py_or_def)
  with h have g: "generate environ prov a api_key s =
        (case GeminiClient_init prov e s of
           (Inl e, s1) \<Rightarrow> (Inl e, s1)
         | (Inr gemini, s1) \<Rightarrow> generate_content prov gemini (build_prompt a) 60 s1)"
    by (simp add: generate_with_key)
  then show "generate environ prov a api_key s =
        (case GeminiClient_init prov e s of
           (Inl e, s1) \<Rightarrow> (Inl e, s1)
         | (Inr gemini, s1) \<Rightarrow> generate_content prov gemini (build_prompt a) 60 s1)" .
  from run_with_key_state [where prov = prov and k = e and s = s and a = a]
  show "configured_key (snd (generate environ prov a api_key s)) = Some e"
    by (simp only: g)
  from run_with_key_state [where prov = prov and k = e and s = s and a = a]
  show "take 1 (new_calls s (snd (generate environ prov a api_key s))) = [Configure e]"
    by (auto simp only: g take_Suc_Cons take_0 One_nat_def)
qed

theorem supplied_key_takes_precedence_witness:
  "configured_key (snd (generate (Map.empty(lit ''GEMINI_API_KEY'' \<mapsto> lit ''env-key''))
       (fixed_provider demo_models (Returns (Some (Text (Some (lit ''# demo''))))))
       demo_analysis (Some (lit ''supplied-key'')) fresh)) = Some (lit ''supplied-key'')
   \<and> configured_key (snd (generate (Map.empty(lit ''GEMINI_API_KEY'' \<mapsto> lit ''env-key''))
       (fixed_provider demo_models (Returns (Some (Text (Some (lit ''# demo''))))))
       demo_analysis (Some []) fresh)) = Some (lit ''env-key'')"
proof -
  have ne1: "lit ''supplied-key'' \<noteq> []" and ne2: "lit ''env-key'' \<noteq> []"
    by simp_all
  have nt: "\<not> truthy (Some [])"
    by (simp add: truthy_def)
  have env: "(Map.empty(lit ''GEMINI_API_KEY'' \<mapsto> lit ''env-key'')) (lit ''GEMINI_API_KEY'')
               = Some (lit ''env-key'')"
    by simp
  note th = supplied_key_takes_precedence
    [where k = "lit ''supplied-key''"
       and environ = "Map.empty(lit ''GEMINI_API_KEY'' \<mapsto> lit ''env-key'')"
       and prov = "fixed_provider demo_models (Returns (Some (Text (Some (lit ''# demo'')))))"
       and a = demo_analysis and s = fresh and api_key = "Some []" and e = "lit ''env-key''"]
  from th ne1 ne2 nt env show ?thesis
    by blast
qed

section \<open>The prompt\<close>

lemma build_prompt_unfold:
  "build_prompt a =
     prompt_preamble
     @ lit ''\<newline>- Name: '' @ get (name a) (lit ''Unknown'')
     @ lit ''\<newline>- Primary Languages: ''
     @ str_or (join (lit '', '') (get (languages a) [])) (lit ''Not detected'')
     @ lit ''\<newline>- Frameworks/Tools: ''
     @ str_or (join (lit '', '') (get (frameworks a) [])) (lit ''Not detected'')
     @ lit ''\<newline>- Total Files: '' @ str_int (get (fileCount a) 0)
     @ lit ''\<newline>- Estimated Lines of Code: '' @ str_int (get (estimatedLOC a) 0)
     @ lit ''\<newline>\<newline>PROJECT STRUCTURE:\<newline>''
     @ join (lit ''\<newline>'') (take 40 (get (structure a) []))
     @ lit ''\<newline>\<newline>'' @ prompt_requirements"
  by (simp add: build_prompt_def Let_def)



text \<open>
  Claim C7: when the languages and the frameworks are each empty or missing, both
  summary lines of the prompt read \<open>Not detected\<close>.
\<close>

theorem empty_languages_and_frameworks_render_not_detected:
  assumes "languages a = None \<or> languages a = Some []"
      and "frameworks a = None \<or> frameworks a = Some []"
  shows "build_prompt a =
     prompt_preamble
     @ lit ''\<newline>- Name: '' @ get (name a) (lit ''Unknown'')
     @ lit ''\<newline>- Primary Languages: '' @ lit ''Not detected''
     @ lit ''\<newline>- Frameworks/Tools: '' @ lit ''Not detected''
     @ lit ''\<newline>- Total Files: '' @ str_int (get (fileCount a) 0)
     @ lit ''\<newline>- Estimated Lines of Code: '' @ str_int (get (estimatedLOC a) 0)
     @ lit ''\<newline>\<newline>PROJECT STRUCTURE:\<newline>''
     @ join (lit ''\<newline>'') (take 40 (get (structure a) []))
     @ lit ''\<newline>\<newline>'' @ prompt_requirements"
proof -
  from assms(1) have l: "str_or (join (lit '', '') (get (languages a) [])) (lit ''Not detected'')
      = lit ''Not detected''"
    by (auto simp: get_def str_or_def)
  from assms(2) have f: "str_or (join (lit '', '') (get (frameworks a) [])) (lit ''Not detected'')
      = lit ''Not detected''"
    by (auto simp: get_def str_or_def)
  show ?thesis
    by (simp only: build_prompt_unfold l f)
qed

theorem empty_languages_and_frameworks_render_not_detected_witness:
  "build_prompt bare_analysis =
     prompt_preamble
     @ lit ''\<newline>- Name: '' @ lit ''Unknown''
     @ lit ''\<newline>- Primary Languages: '' @ lit ''Not detected''
     @ lit ''\<newline>- Frameworks/Tools: '' @ lit ''Not detected''
     @ lit ''\<newline>- Total Files: '' @ lit ''0''
     @ lit ''\<newline>- Estimated Lines of Code: '' @ lit ''12''
     @ lit ''\<newline>\<newline>PROJECT STRUCTURE:\<newline>''
     @ lit ''\<newline>\<newline>'' @ prompt_requirements"
  using empty_languages_and_frameworks_render_not_detected [of bare_analysis]
  by (simp add: bare_analysis_def get_def str_int_def lit_def)

text \<open>
  Claim C10: two analyses that agree on the six fields the builder reads (name,
  structure, languages, frameworks, fileCount, estimatedLOC) give the same prompt: the
  fields apiKey, description, dependencies and scripts do not flow into it.
\<close>

theorem prompt_ignores_unread_fields:
  assumes "name a = name b" and "structure a = structure b"
      and "languages a = languages b" and "frameworks a = frameworks b"
      and "fileCount a = fileCount b" and "estimatedLOC a = estimatedLOC b"
  shows "build_prompt a = build_prompt b"
  using assms by (simp add: build_prompt_unfold)

theorem prompt_ignores_unread_fields_witness:
  "build_prompt
     (demo_analysis\<lparr>apiKey := Some (lit ''AIza-secret''),
        description := Some (lit ''A demo''),
        dependencies := Some [(lit ''fastapi'', JStr (lit ''0.110''))],
        scripts := Some [(lit ''start'', JStr (lit ''uvicorn app:app''))]\<rparr>)
   = build_prompt demo_analysis"
  using prompt_ignores_unread_fields
    [of "demo_analysis\<lparr>apiKey := Some (lit ''AIza-secret''),
        description := Some (lit ''A demo''),
        dependencies := Some [(lit ''fastapi'', JStr (lit ''0.110''))],
        scripts := Some [(lit ''start'', JStr (lit ''uvicorn app:app''))]\<rparr>" demo_analysis]
  by simp

lemma generate_prompt_sent:
  assumes "GenerateContent m p c \<in> set (new_calls s (snd (generate environ prov a api_key s)))"
  shows "p = build_prompt a"
proof (cases "py_or api_key (environ (lit ''GEMINI_API_KEY''))")
  case None
  then have "snd (generate environ prov a api_key s) = s"
    by (simp add: generate_def)
  with assms show ?thesis
    by (simp add: new_calls_def)
next
  case (Some k)
  show ?thesis
  proof (cases "k = []")
    case True
    with Some have "snd (generate environ prov a api_key s) = s"
      by (simp add: generate_def)
    with assms show ?thesis
      by (simp add: new_calls_def)
  next
    case False
    note g = generate_with_key [where k = k and api_key = api_key and environ = environ
        and prov = prov and a = a and s = s, OF False Some]
    from run_with_key_state [where prov = prov and k = k and s = s and a = a]
    obtain rest where
      "new_calls s (snd (generate environ prov a api_key s)) = Configure k # ListModels # rest"
      and "\<forall>m p c. GenerateContent m p c \<in> set rest \<longrightarrow> p = build_prompt a"
      unfolding g by blast
    with assms show ?thesis
      by auto
  qed
qed

text \<open>
  Claim C8: the prompt is a function of the analysis alone. \<open>build_prompt\<close> has no
  error result, and in any two invocations of \<open>generate\<close> on the same analysis, whatever
  the environments, the supplied keys, the providers and the SDK states, every prompt
  handed to the generation call is \<open>build_prompt\<close> of that analysis.
\<close>

theorem prompt_is_determined_by_the_analysis:
  assumes "GenerateContent m1 p1 c1
             \<in> set (new_calls s1 (snd (generate environ1 prov1 a key1 s1)))"
      and "GenerateContent m2 p2 c2
             \<in> set (new_calls s2 (snd (generate environ2 prov2 a key2 s2)))"
  shows "p1 = build_prompt a \<and> p2 = p1"
  using assms [THEN generate_prompt_sent] by simp

theorem prompt_is_determined_by_the_analysis_witness:
  "GenerateContent (lit ''models/gemini-pro'') (build_prompt demo_analysis)
       \<lparr>temperature = 0.3, top_p = 0.9, top_k = 40, max_output_tokens = 2048\<rparr>
     \<in> set (new_calls fresh (snd (generate Map.empty
         (fixed_provider demo_models (Returns (Some (Text (Some (lit ''# demo''))))))
         demo_analysis (Some (lit ''key-A'')) fresh)))
   \<and> GenerateContent (lit ''models/gemini-pro'') (build_prompt demo_analysis)
       \<lparr>temperature = 0.3, top_p = 0.9, top_k = 40, max_output_tokens = 2048\<rparr>
     \<in> set (new_calls \<lparr>configured_key = Some (lit ''key-A''), calls = [Configure (lit ''key-A'')]\<rparr>
         (snd (generate (Map.empty(lit ''GEMINI_API_KEY'' \<mapsto> lit ''key-B''))
         (fixed_provider demo_models
            (Raises (PyExc (ProviderError ''ResourceExhausted'') (lit ''429 quota'') None)))
         demo_analysis None
         \<lparr>configured_key = Some (lit ''key-A''), calls = [Configure (lit ''key-A'')]\<rparr>)))"
proof -
  have m1: "GenerateContent (lit ''models/gemini-pro'') (build_prompt demo_analysis)
       \<lparr>temperature = 0.3, top_p = 0.9, top_k = 40, max_output_tokens = 2048\<rparr>
     \<in> set (new_calls fresh (snd (generate Map.empty
         (fixed_provider demo_models (Returns (Some (Text (Some (lit ''# demo''))))))
         demo_analysis (Some (lit ''key-A'')) fresh)))"
    by (simp add: generate_def py_or_def truthy_def GeminiClient_init_unfold fixed_provider_def
        demo_models_def supports_generate_content_def generate_content_unfold new_calls_def
        fresh_def Let_def)
  have m2: "GenerateContent (lit ''models/gemini-pro'') (build_prompt demo_analysis)
       \<lparr>temperature = 0.3, top_p = 0.9, top_k = 40, max_output_tokens = 2048\<rparr>
     \<in> set (new_calls \<lparr>configured_key = Some (lit ''key-A''), calls = [Configure (lit ''key-A'')]\<rparr>
         (snd (generate (Map.empty(lit ''GEMINI_API_KEY'' \<mapsto> lit ''key-B''))
         (fixed_provider demo_models
            (Raises (PyExc (ProviderError ''ResourceExhausted'') (lit ''429 quota'') None)))
         demo_analysis None
         \<lparr>configured_key = Some (lit ''key-A''), calls = [Configure (lit ''key-A'')]\<rparr>)))"
    by (simp add: generate_def py_or_def truthy_def GeminiClient_init_unfold fixed_provider_def
        demo_models_def supports_generate_content_def generate_content_unfold new_calls_def
        Let_def)
  from prompt_is_determined_by_the_analysis [OF m1 m2] m1 m2 show ?thesis
    by simp
qed

end
